theory Spec2Isabelle
  imports Main "HOL-Library.Char_ord" "HOL-Library.List_Lexorder"
begin

section \<open>kubor-demo1: the two variants of app.go\<close>

text \<open>
  \<^verbatim>\<open>src/app.go\<close> holds two complete programs one after the other: the early, simple
  variant (lines 1 to 121) and the extended variant (lines 122 to 292). Both are embedded
  here; a definition that exists in both carries the prefix \<open>simple_\<close> or \<open>extended_\<close>,
  a definition whose text is the same in both is given once.

  The program is built for linux/amd64 with the Go 1.12.1 toolchain (the Dockerfile of
  the repository), so \<open>int\<close> has 64 bits and the standard library is the one of Go 1.12.
\<close>

subsection \<open>The boundary to net/http\<close>

text \<open>
  Go's \<open>map[string][]string\<close> (\<open>http.Header\<close>, \<open>url.Values\<close>) is an association list with
  one entry per key. \<open>Header.Set\<close> replaces the values of a key by a single value. The
  keys the program sets are already in canonical form.
\<close>

type_synonym Values = "(string \<times> string list) list"

fun Header_Set :: "string \<Rightarrow> string \<Rightarrow> Values \<Rightarrow> Values" where
  "Header_Set k v [] = [(k, [v])]"
| "Header_Set k v ((k', vs) # h) =
     (if k' = k then (k, [v]) # h else (k', vs) # Header_Set k v h)"

definition Values_Get :: "Values \<Rightarrow> string \<Rightarrow> string" where
  \<comment> \<open>the first value of the key, the empty string when there is none\<close>
  "Values_Get vs k = (case map_of vs k of None \<Rightarrow> [] | Some [] \<Rightarrow> [] | Some (v # _) \<Rightarrow> v)"

record Url =
  Path :: string
  Query :: "Values"  \<comment> \<open>what \<open>URL.Query()\<close> returns: the parsed query string\<close>

record http_Request =
  Method :: string
  URL :: Url
  Proto :: string
  Header :: "Values option"
  Host :: string
  Form :: "Values option"      \<comment> \<open>\<open>nil\<close> until \<open>ParseForm\<close> is called\<close>
  PostForm :: "Values option"  \<comment> \<open>\<open>nil\<close> until \<open>ParseForm\<close> is called\<close>
  Body :: string               \<comment> \<open>the request body, which no handler reads\<close>
  RemoteAddr :: string
  RequestURI :: string

text \<open>
  What the server reads from a connection, and the \<open>http.Request\<close> it hands to the
  handler: the form fields are left \<open>nil\<close>, the header map is allocated.
\<close>

record wire_request =
  wire_method :: string
  wire_path :: string
  wire_query :: "Values"
  wire_proto :: string
  wire_header :: "Values"
  wire_host :: string
  wire_body :: string
  wire_remote :: string
  wire_uri :: string

definition readRequest :: "wire_request \<Rightarrow> http_Request" where
  "readRequest r =
     \<lparr> Method = wire_method r,
       URL = \<lparr> Path = wire_path r, Query = wire_query r \<rparr>,
       Proto = wire_proto r,
       Header = Some (wire_header r),
       Host = wire_host r,
       Form = None,
       PostForm = None,
       Body = wire_body r,
       RemoteAddr = wire_remote r,
       RequestURI = wire_uri r \<rparr>"

text \<open>
  A JSON document is kept as the tree the encoder serialises; the byte-level rendering
  (indentation, escaping) belongs to encoding/json. A body is the list of the successful
  writes, each either text or one encoded document.
\<close>

datatype json = JNull | JString string | JArray "json list" | JObject "(string \<times> json) list"

datatype payload = Text string | Document json

datatype write_error = ErrBodyNotAllowed

text \<open>
  The \<open>http.ResponseWriter\<close> of the server (\<open>response\<close> in net/http): \<open>handlerHeader\<close> is
  the map \<open>Header()\<close> returns, \<open>sentHeader\<close> its snapshot taken when the status line is
  fixed. The headers the server adds by itself on the wire (date, length, a sniffed
  content type) are not part of it.
\<close>

record response =
  reqMethod :: string
  handlerHeader :: "Values"
  wroteHeader :: bool
  status :: int
  sentHeader :: "Values"
  body :: "payload list"

definition newResponse :: "http_Request \<Rightarrow> response" where
  "newResponse req =
     \<lparr> reqMethod = Method req, handlerHeader = [], wroteHeader = False, status = 0,
       sentHeader = [], body = [] \<rparr>"

definition Header_Set_resp :: "string \<Rightarrow> string \<Rightarrow> response \<Rightarrow> response" where
  \<comment> \<open>\<open>resp.Header().Set(k, v)\<close>\<close>
  "Header_Set_resp k v w = w\<lparr>handlerHeader := Header_Set k v (handlerHeader w)\<rparr>"

definition WriteHeader :: "int \<Rightarrow> response \<Rightarrow> response" where
  \<comment> \<open>the first call wins; a later change of the header map has no effect on the reply.
      The callers pass codes in 100..999, outside of which net/http panics.\<close>
  "WriteHeader code w =
     (if wroteHeader w then w
      else w\<lparr>wroteHeader := True, status := code, sentHeader := handlerHeader w\<rparr>)"

definition bodyAllowedForStatus :: "int \<Rightarrow> bool" where
  "bodyAllowedForStatus code =
     (if 100 \<le> code \<and> code \<le> 199 then False
      else if code = 204 then False
      else if code = 304 then False
      else True)"

fun payload_empty :: "payload \<Rightarrow> bool" where
  "payload_empty (Text s) = (s = [])"
| "payload_empty (Document d) = False"

definition Write :: "payload \<Rightarrow> response \<Rightarrow> write_error option \<times> response" where
  "Write p w =
     (let w1 = (if wroteHeader w then w else WriteHeader 200 w) in
      if payload_empty p then (None, w1)
      else if \<not> bodyAllowedForStatus (status w1) then (Some ErrBodyNotAllowed, w1)
      else if reqMethod w1 = ''HEAD'' then (None, w1)
      else (None, w1\<lparr>body := body w1 @ [p]\<rparr>))"

definition StatusMethodNotAllowed :: int where "StatusMethodNotAllowed = 405"
definition StatusOK :: int where "StatusOK = 200"
definition StatusServiceUnavailable :: int where "StatusServiceUnavailable = 503"
definition StatusNotFound :: int where "StatusNotFound = 404"

definition StatusText :: "int \<Rightarrow> string" where
  \<comment> \<open>the entries of the table for the codes the program names\<close>
  "StatusText code =
     (if code = 200 then ''OK''
      else if code = 404 then ''Not Found''
      else if code = 405 then ''Method Not Allowed''
      else if code = 503 then ''Service Unavailable''
      else [])"

definition Error :: "string \<Rightarrow> int \<Rightarrow> response \<Rightarrow> response" where
  \<comment> \<open>\<open>http.Error\<close>: two headers, the status, the message and a newline\<close>
  "Error msg code w =
     snd (Write (Text (msg @ [CHR 0x0A]))
       (WriteHeader code
         (Header_Set_resp ''X-Content-Type-Options'' ''nosniff''
           (Header_Set_resp ''Content-Type'' ''text/plain; charset=utf-8'' w))))"

definition NotFound :: "response \<Rightarrow> response" where
  "NotFound w = Error ''404 page not found'' StatusNotFound w"

subsection \<open>Log lines and the readiness flag\<close>

datatype signal = SIGINT | SIGTERM

datatype logmsg =
    Starting string string
  | ReceivedSignal signal
  | ListenTo string
  | CannotListen string
  | WaitingToBeReady int
  | RunningForEver
  | RunningFor int
  | GoodBye
  | ErrorWritingHealth string string write_error
  | ErrorWriting string write_error

datatype panic = InterfaceConversion

definition Load_bool :: "bool option \<Rightarrow> panic + bool" where
  \<comment> \<open>\<open>ready.Load().(bool)\<close>: the assertion panics on an \<open>atomic.Value\<close> never stored to\<close>
  "Load_bool v = (case v of None \<Rightarrow> Inl InterfaceConversion | Some b \<Rightarrow> Inr b)"

subsection \<open>The handlers of the simple variant\<close>

definition simple_handleHealth ::
  "bool option \<Rightarrow> http_Request \<Rightarrow> response \<Rightarrow> panic + (response \<times> logmsg list)" where
  "simple_handleHealth ready req resp =
     (case Load_bool ready of
        Inl p \<Rightarrow> Inl p
      | Inr r \<Rightarrow>
          (let (resp1, v) =
                 (if r then (WriteHeader StatusOK resp, ''OK'')
                  else (WriteHeader StatusServiceUnavailable resp, ''NOT_READY''));
               resp2 = Header_Set_resp ''Content-Type'' ''text/plain'' resp1;
               (err, resp3) = Write (Text v) resp2
           in Inr (resp3,
                case err of None \<Rightarrow> []
                | Some e \<Rightarrow> [ErrorWritingHealth v (RemoteAddr req) e])))"

definition handleRoot :: "http_Request \<Rightarrow> response \<Rightarrow> response \<times> logmsg list" where
  "handleRoot req resp =
     (let resp1 = Header_Set_resp ''Content-Type'' ''text/plain'' resp;
          (err, resp2) = Write (Text ''Hello world!'') resp1
      in (resp2, case err of None \<Rightarrow> [] | Some e \<Rightarrow> [ErrorWriting (RemoteAddr req) e]))"

definition simple_handler ::
  "bool option \<Rightarrow> http_Request \<Rightarrow> response \<Rightarrow> panic + (response \<times> logmsg list)" where
  "simple_handler ready req resp =
     (if Method req \<noteq> ''GET''
      then Inr (Error (StatusText StatusMethodNotAllowed) StatusMethodNotAllowed resp, [])
      else if Path (URL req) = ''/'' then Inr (handleRoot req resp)
      else if Path (URL req) = ''/healthz'' then simple_handleHealth ready req resp
      else Inr (NotFound resp, []))"

subsection \<open>strconv.Atoi\<close>

text \<open>
  Base ten, an optional sign, at least one digit, nothing else; the value has to fit the
  64-bit \<open>int\<close>. Which of the two errors of strconv is returned is not kept: the program
  only tests \<open>err == nil\<close>.
\<close>

datatype NumError = NumError

definition digit_of :: "char \<Rightarrow> nat option" where
  "digit_of c =
     (if of_char CHR ''0'' \<le> (of_char c :: nat) \<and> (of_char c :: nat) \<le> of_char CHR ''9''
      then Some (of_char c - of_char CHR ''0'') else None)"

fun digits_value :: "string \<Rightarrow> nat \<Rightarrow> nat option" where
  "digits_value [] n = Some n"
| "digits_value (c # cs) n =
     (case digit_of c of None \<Rightarrow> None | Some d \<Rightarrow> digits_value cs (n * 10 + d))"

definition Atoi :: "string \<Rightarrow> NumError + int" where
  "Atoi s =
     (let neg = (s \<noteq> [] \<and> hd s = CHR ''-'');
          ds = (if s \<noteq> [] \<and> (hd s = CHR ''-'' \<or> hd s = CHR ''+'') then tl s else s)
      in if ds = [] then Inl NumError
         else case digits_value ds 0 of
                None \<Rightarrow> Inl NumError
              | Some n \<Rightarrow>
                  (let v = (if neg then - int n else int n)
                   in if v < - (2 ^ 63) \<or> 2 ^ 63 \<le> v then Inl NumError else Inr v))"

subsection \<open>The diagnostic body of the extended variant\<close>

text \<open>
  \<open>branch\<close> and \<open>revision\<close> are package variables the linker may overwrite at build time,
  \<open>GOOS\<close> and \<open>GOARCH\<close> constants of the toolchain: together the build.
\<close>

record build =
  branch :: string
  revision :: string
  GOOS :: string
  GOARCH :: string

definition default_build :: build where
  "default_build =
     \<lparr> branch = ''development'', revision = ''latest'', GOOS = ''linux'', GOARCH = ''amd64'' \<rparr>"

record runtimeBody =
  Branch :: string
  Revision :: string
  Platform :: string

record requestBody =
  q_Proto :: string
  q_Host :: string
  q_Method :: string
  q_RequestURI :: string
  q_Headers :: "Values option"
  q_Form :: "Values option"
  q_PostForm :: "Values option"

record responseBody =
  Runtime :: runtimeBody
  Request :: requestBody

definition responseBodyFor :: "build \<Rightarrow> http_Request \<Rightarrow> responseBody" where
  "responseBodyFor b req =
     \<lparr> Runtime = \<lparr> Branch = branch b, Revision = revision b,
                   Platform = GOOS b @ ''-'' @ GOARCH b \<rparr>,
       Request = \<lparr> q_Proto = Proto req, q_Host = Host req, q_Method = Method req,
                   q_RequestURI = RequestURI req, q_Headers = Header req,
                   q_Form = Form req, q_PostForm = PostForm req \<rparr> \<rparr>"

text \<open>
  The struct tags as the encoder reads them: the fields in declaration order under their
  JSON names, a map with \<open>omitempty\<close> left out when it is \<open>nil\<close> or has no entry, the keys
  of a map in sorted order.
\<close>

definition marshal_Values :: "Values \<Rightarrow> json" where
  "marshal_Values m =
     JObject (map (\<lambda>(k, vs). (k, JArray (map JString vs))) (sort_key fst m))"

definition omitempty :: "string \<Rightarrow> Values option \<Rightarrow> (string \<times> json) list" where
  "omitempty name m =
     (case m of None \<Rightarrow> []
      | Some kvs \<Rightarrow> if length kvs = 0 then [] else [(name, marshal_Values kvs)])"

definition marshal_runtimeBody :: "runtimeBody \<Rightarrow> json" where
  "marshal_runtimeBody r =
     JObject [(''branch'', JString (Branch r)),
              (''revision'', JString (Revision r)),
              (''platform'', JString (Platform r))]"

definition marshal_requestBody :: "requestBody \<Rightarrow> json" where
  "marshal_requestBody q =
     JObject ([(''proto'', JString (q_Proto q)),
               (''host'', JString (q_Host q)),
               (''method'', JString (q_Method q)),
               (''requestURI'', JString (q_RequestURI q))]
              @ omitempty ''headers'' (q_Headers q)
              @ omitempty ''form'' (q_Form q)
              @ omitempty ''postForm'' (q_PostForm q))"

definition marshal_responseBody :: "responseBody \<Rightarrow> json" where
  "marshal_responseBody r =
     JObject [(''runtime'', marshal_runtimeBody (Runtime r)),
              (''request'', marshal_requestBody (Request r))]"

text \<open>Reading a decoded document: the names of its fields, and one field by name.\<close>

fun json_fields :: "json \<Rightarrow> string list" where
  "json_fields (JObject kvs) = map fst kvs"
| "json_fields _ = []"

fun json_field :: "string \<Rightarrow> json \<Rightarrow> json option" where
  "json_field k (JObject kvs) = map_of kvs k"
| "json_field k _ = None"

subsection \<open>The handlers of the extended variant\<close>

definition methodNotAllowed :: "response \<Rightarrow> response" where
  "methodNotAllowed resp = Error (StatusText StatusMethodNotAllowed) StatusMethodNotAllowed resp"

definition extended_handleHealth ::
  "bool option \<Rightarrow> http_Request \<Rightarrow> response \<Rightarrow> panic + (response \<times> logmsg list)" where
  "extended_handleHealth ready req resp =
     (if Method req \<noteq> ''GET'' then Inr (methodNotAllowed resp, [])
      else case Load_bool ready of
        Inl p \<Rightarrow> Inl p
      | Inr r \<Rightarrow>
          (let (resp1, v) =
                 (if r then (WriteHeader StatusOK resp, ''OK'')
                  else (WriteHeader StatusServiceUnavailable resp, ''NOT_READY''));
               resp2 = Header_Set_resp ''Content-Type'' ''text/plain'' resp1;
               (err, resp3) = Write (Text v) resp2
           in Inr (resp3,
                case err of None \<Rightarrow> []
                | Some e \<Rightarrow> [ErrorWritingHealth v (RemoteAddr req) e])))"

definition handleEveryThingElse ::
  "build \<Rightarrow> http_Request \<Rightarrow> response \<Rightarrow> response \<times> logmsg list" where
  "handleEveryThingElse b req resp =
     (let resp1 = Header_Set_resp ''Content-Type'' ''application/json'' resp;
          plainStatusCode = Values_Get (Query (URL req)) ''statusCode'';
          resp2 = (case Atoi plainStatusCode of
                     Inr statusCode \<Rightarrow>
                       if statusCode \<ge> 100 \<and> statusCode < 1000
                       then WriteHeader statusCode resp1 else resp1
                   | Inl err \<Rightarrow> resp1);
          body = responseBodyFor b req;
          (err, resp3) = Write (Document (marshal_responseBody body)) resp2
      in (resp3, case err of None \<Rightarrow> [] | Some e \<Rightarrow> [ErrorWriting (RemoteAddr req) e]))"

definition extended_handler ::
  "build \<Rightarrow> bool option \<Rightarrow> http_Request \<Rightarrow> response \<Rightarrow> panic + (response \<times> logmsg list)" where
  "extended_handler b ready req resp =
     (if Path (URL req) = ''/healthz'' then extended_handleHealth ready req resp
      else Inr (handleEveryThingElse b req resp))"

text \<open>One request served: the server builds the request and the writer, the handler runs.\<close>

datatype variant = Simple | Extended

definition serve ::
  "variant \<Rightarrow> build \<Rightarrow> bool option \<Rightarrow> wire_request \<Rightarrow> panic + (response \<times> logmsg list)" where
  "serve v b ready r =
     (let req = readRequest r; resp = newResponse req
      in case v of Simple \<Rightarrow> simple_handler ready req resp
                 | Extended \<Rightarrow> extended_handler b ready req resp)"

subsection \<open>The lifecycle: configuration and the statements of the main path\<close>

text \<open>
  The four flags after \<open>flag.Parse()\<close> has succeeded. A \<open>time.Duration\<close> is a signed count
  of nanoseconds; \<open>exitAfter\<close> keeps the pointer that \<open>justRun\<close> tests against \<open>nil\<close>.
\<close>

record config =
  readyAfter :: int
  exitAfter :: "int option"
  exitCode :: int
  listen :: string

definition second :: int where "second = 1000000000"

definition simple_defaults :: config where
  "simple_defaults =
     \<lparr> readyAfter = 15 * second, exitAfter = Some 0, exitCode = 1, listen = '':8080'' \<rparr>"

definition extended_defaults :: config where
  "extended_defaults =
     \<lparr> readyAfter = 0, exitAfter = Some 0, exitCode = 1, listen = '':8080'' \<rparr>"

text \<open>
  The main path is a sequence of calls with an effect outside the goroutine: each function
  of the source is the list of the calls it makes, in order. \<open>init\<close> runs before \<open>main\<close>.
\<close>

datatype action =
    Log logmsg
  | Notify signal
  | GoSignalHandler
  | GoRunServer
  | Sleep int
  | Store bool
  | WgAdd int
  | WgWait
  | Exit int

definition init :: "action list" where
  "init = [Store False]"

definition registerGracefulShutdown :: "action list" where
  \<comment> \<open>the channel is made without a buffer\<close>
  "registerGracefulShutdown = [Notify SIGTERM, Notify SIGINT, GoSignalHandler]"

definition simple_waitToBeReady :: "config \<Rightarrow> action list" where
  "simple_waitToBeReady cfg =
     [Log (WaitingToBeReady (readyAfter cfg)), Sleep (readyAfter cfg), Store True]"

definition extended_waitToBeReady :: "config \<Rightarrow> action list" where
  "extended_waitToBeReady cfg =
     (if readyAfter cfg > 0
      then [Log (WaitingToBeReady (readyAfter cfg)), Sleep (readyAfter cfg)] else [])
     @ [Store True]"

definition waitToBeReady :: "variant \<Rightarrow> config \<Rightarrow> action list" where
  "waitToBeReady v cfg =
     (case v of Simple \<Rightarrow> simple_waitToBeReady cfg | Extended \<Rightarrow> extended_waitToBeReady cfg)"

definition blockForEver :: "action list" where
  "blockForEver = [WgAdd 1, WgWait]"

definition justRun :: "config \<Rightarrow> action list" where
  "justRun cfg =
     (case exitAfter cfg of
        None \<Rightarrow> [Log RunningForEver] @ blockForEver
      | Some d \<Rightarrow>
          if d = 0 then [Log RunningForEver] @ blockForEver
          else [Log (RunningFor d), Sleep d])"

definition main :: "variant \<Rightarrow> build \<Rightarrow> config \<Rightarrow> action list" where
  "main v b cfg =
     [Log (Starting (branch b) (revision b))]
     @ registerGracefulShutdown
     @ [GoRunServer]
     @ waitToBeReady v cfg
     @ justRun cfg
     @ [Log GoodBye, Exit (exitCode cfg)]"

subsection \<open>The process: three goroutines, the clock and the signals\<close>

datatype goroutine = MainG | SignalG | ServerG

datatype exit_status = Running | Exited goroutine int | Killed signal

text \<open>
  The goroutine of \<open>registerGracefulShutdown\<close>: started, blocked in the receive, holding
  the signal it received, having logged it. The goroutine of \<open>runServer\<close>: started,
  having logged the address, accepting connections.
\<close>

datatype signal_handler = NotStarted | Started | Receiving | Received signal | Logged signal

datatype server = ServerNotStarted | ServerStarted | ServerLogged | Listening

record process =
  p_variant :: variant
  p_build :: build
  p_config :: config
  p_ready :: "bool option"      \<comment> \<open>the \<open>atomic.Value\<close>\<close>
  p_stores :: "bool list"        \<comment> \<open>every value stored to it, in order\<close>
  p_cont :: "action list"        \<comment> \<open>what the main path has still to do\<close>
  p_wake :: "int option"         \<comment> \<open>the end of the sleep the main path is in\<close>
  p_wg :: int                    \<comment> \<open>the counter of the wait group\<close>
  p_notify :: "signal list"      \<comment> \<open>the signals relayed to the channel\<close>
  p_sig :: signal_handler
  p_srv :: server
  p_now :: int
  p_log :: "logmsg list"
  p_replies :: "response list"
  p_exit :: exit_status

definition boot :: "variant \<Rightarrow> build \<Rightarrow> config \<Rightarrow> process" where
  "boot v b cfg =
     \<lparr> p_variant = v, p_build = b, p_config = cfg,
       p_ready = None, p_stores = [], p_cont = init @ main v b cfg, p_wake = None,
       p_wg = 0, p_notify = [], p_sig = NotStarted, p_srv = ServerNotStarted,
       p_now = 0, p_log = [], p_replies = [], p_exit = Running \<rparr>"

fun exec :: "action \<Rightarrow> action list \<Rightarrow> process \<Rightarrow> process" where
  "exec (Log m) k s = s\<lparr>p_cont := k, p_log := p_log s @ [m]\<rparr>"
| "exec (Notify g) k s = s\<lparr>p_cont := k, p_notify := g # p_notify s\<rparr>"
| "exec GoSignalHandler k s = s\<lparr>p_cont := k, p_sig := Started\<rparr>"
| "exec GoRunServer k s = s\<lparr>p_cont := k, p_srv := ServerStarted\<rparr>"
| "exec (Sleep d) k s =
     (if d \<le> 0 then s\<lparr>p_cont := k\<rparr> else s\<lparr>p_cont := k, p_wake := Some (p_now s + d)\<rparr>)"
| "exec (Store x) k s = s\<lparr>p_cont := k, p_ready := Some x, p_stores := p_stores s @ [x]\<rparr>"
| "exec (WgAdd n) k s = s\<lparr>p_cont := k, p_wg := p_wg s + n\<rparr>"
| "exec WgWait k s = (if p_wg s = 0 then s\<lparr>p_cont := k\<rparr> else s)"
| "exec (Exit c) k s = s\<lparr>p_exit := Exited MainG c\<rparr>"

definition main_step :: "process \<Rightarrow> process" where
  \<comment> \<open>asleep until the clock reaches the end of the sleep; \<open>main\<close> returning ends the
      process with code 0\<close>
  "main_step s =
     (case p_wake s of
        Some t \<Rightarrow> if t \<le> p_now s then s\<lparr>p_wake := None\<rparr> else s
      | None \<Rightarrow>
          (case p_cont s of
             [] \<Rightarrow> s\<lparr>p_exit := Exited MainG 0\<rparr>
           | a # k \<Rightarrow> exec a k s))"

definition signal_step :: "process \<Rightarrow> process" where
  "signal_step s =
     (case p_sig s of
        NotStarted \<Rightarrow> s
      | Started \<Rightarrow> s\<lparr>p_sig := Receiving\<rparr>
      | Receiving \<Rightarrow> s
      | Received g \<Rightarrow> s\<lparr>p_sig := Logged g, p_log := p_log s @ [ReceivedSignal g]\<rparr>
      | Logged g \<Rightarrow> s\<lparr>p_exit := Exited SignalG 0\<rparr>)"

definition deliver :: "signal \<Rightarrow> process \<Rightarrow> process" where
  \<comment> \<open>a signal not relayed yet ends the process the default way; a relayed one is handed
      to the channel without blocking, so it is lost unless the goroutine is receiving\<close>
  "deliver g s =
     (if g \<in> set (p_notify s)
      then (if p_sig s = Receiving then s\<lparr>p_sig := Received g\<rparr> else s)
      else s\<lparr>p_exit := Killed g\<rparr>)"

definition server_step :: "bool \<Rightarrow> process \<Rightarrow> process" where
  \<comment> \<open>\<open>ok\<close>: whether \<open>ListenAndServe\<close> keeps going; when it returns, \<open>log.Fatalf\<close> exits
      with code 1\<close>
  "server_step ok s =
     (case p_srv s of
        ServerNotStarted \<Rightarrow> s
      | ServerStarted \<Rightarrow>
          s\<lparr>p_srv := ServerLogged, p_log := p_log s @ [ListenTo (listen (p_config s))]\<rparr>
      | _ \<Rightarrow>
          if ok then s\<lparr>p_srv := Listening\<rparr>
          else s\<lparr>p_log := p_log s @ [CannotListen (listen (p_config s))],
                 p_exit := Exited ServerG 1\<rparr>)"

definition request_step :: "wire_request \<Rightarrow> process \<Rightarrow> process" where
  \<comment> \<open>a handler that panics sends no reply\<close>
  "request_step r s =
     (if p_srv s = Listening
      then (case serve (p_variant s) (p_build s) (p_ready s) r of
              Inl p \<Rightarrow> s
            | Inr (w, l) \<Rightarrow> s\<lparr>p_replies := p_replies s @ [w], p_log := p_log s @ l\<rparr>)
      else s)"

datatype event =
    Main | SignalHandler | Server bool | Deliver signal | Serve wire_request | Tick nat

fun step :: "event \<Rightarrow> process \<Rightarrow> process" where
  "step e s =
     (if p_exit s \<noteq> Running then s
      else case e of
             Main \<Rightarrow> main_step s
           | SignalHandler \<Rightarrow> signal_step s
           | Server ok \<Rightarrow> server_step ok s
           | Deliver g \<Rightarrow> deliver g s
           | Serve r \<Rightarrow> request_step r s
           | Tick n \<Rightarrow> s\<lparr>p_now := p_now s + int n\<rparr>)"

definition run :: "event list \<Rightarrow> process \<Rightarrow> process" where
  "run es s = fold step es s"

fun stores_of :: "action list \<Rightarrow> bool list" where
  "stores_of [] = []"
| "stores_of (Store x # k) = x # stores_of k"
| "stores_of (a # k) = stores_of k"

subsection \<open>Requests used as examples, and the invariant of the flag\<close>

definition health_probe :: "string \<Rightarrow> wire_request" where
  "health_probe m =
     \<lparr> wire_method = m, wire_path = ''/healthz'', wire_query = [],
       wire_proto = ''HTTP/1.1'', wire_header = [], wire_host = ''localhost:8080'',
       wire_body = [], wire_remote = ''127.0.0.1:40000'', wire_uri = ''/healthz'' \<rparr>"

definition diagnostic_probe :: "string \<Rightarrow> string \<Rightarrow> wire_request" where
  "diagnostic_probe m code =
     \<lparr> wire_method = m, wire_path = ''/'', wire_query = [(''statusCode'', [code])],
       wire_proto = ''HTTP/1.1'', wire_header = [], wire_host = ''localhost:8080'',
       wire_body = ''form=1&postForm=2'', wire_remote = ''127.0.0.1:40000'',
       wire_uri = ''/?statusCode='' @ code \<rparr>"

text \<open>
  What holds of the flag in every state of every execution: the values stored so far and
  the stores still ahead on the main path make up \<open>false, true\<close>; the flag holds the last
  value stored; and before the first store nothing else has run.
\<close>

definition flag_inv :: "variant \<Rightarrow> build \<Rightarrow> config \<Rightarrow> process \<Rightarrow> bool" where
  "flag_inv v b cfg s \<longleftrightarrow>
     p_stores s @ stores_of (p_cont s) = [False, True]
     \<and> p_ready s = (if p_stores s = [] then None else Some (last (p_stores s)))
     \<and> (p_stores s = [] \<longrightarrow> p_cont s = init @ main v b cfg \<and> p_srv s = ServerNotStarted)"


section \<open>The HTTP responder\<close>

lemmas http_defs = serve_def readRequest_def newResponse_def simple_handler_def
  extended_handler_def simple_handleHealth_def extended_handleHealth_def Load_bool_def
  WriteHeader_def Write_def Header_Set_resp_def bodyAllowedForStatus_def
  StatusOK_def StatusServiceUnavailable_def StatusMethodNotAllowed_def StatusText_def
  Error_def methodNotAllowed_def Let_def

text \<open>
  C1: a GET request to \<open>/healthz\<close> is answered, in both variants, with status 200 and
  body \<open>OK\<close> when the flag the handler loads is true, and with status 503 and body
  \<open>NOT_READY\<close> when it is false; the handler neither panics nor logs, so there is no
  other outcome.
\<close>

theorem health_get:
  assumes "wire_path r = ''/healthz''" and "wire_method r = ''GET''"
  shows "\<exists>w. serve v b (Some flag) r = Inr (w, [])
           \<and> status w = (if flag then 200 else 503)
           \<and> body w = [Text (if flag then ''OK'' else ''NOT_READY'')]"
  using assms by (cases v; cases flag) (simp_all add: http_defs)

theorem health_get_witness:
  "wire_path (health_probe ''GET'') = ''/healthz'' \<and> wire_method (health_probe ''GET'') = ''GET''
   \<and> (\<exists>w. serve Simple default_build (Some True) (health_probe ''GET'') = Inr (w, [])
          \<and> status w = 200 \<and> body w = [Text ''OK''])
   \<and> (\<exists>w. serve Extended default_build (Some False) (health_probe ''GET'') = Inr (w, [])
          \<and> status w = 503 \<and> body w = [Text ''NOT_READY''])"
  using health_get [of "health_probe ''GET''" Simple default_build True]
    health_get [of "health_probe ''GET''" Extended default_build False]
  by (simp add: health_probe_def)

text \<open>
  C7: a request to \<open>/healthz\<close> with any method other than GET is answered with status
  405 in both variants, and the whole reply is the same whatever the flag holds, also
  when nothing was stored to it yet.
\<close>

theorem health_other_method:
  assumes "wire_path r = ''/healthz''" and "wire_method r \<noteq> ''GET''"
  shows "\<exists>w. serve v b flag r = Inr (w, []) \<and> status w = 405
           \<and> serve v b flag' r = serve v b flag r"
  using assms by (cases v) (simp_all add: http_defs)

theorem health_other_method_witness:
  "wire_path (health_probe ''POST'') = ''/healthz'' \<and> wire_method (health_probe ''POST'') \<noteq> ''GET''
   \<and> (\<exists>w. serve Simple default_build (Some True) (health_probe ''POST'') = Inr (w, [])
          \<and> status w = 405
          \<and> serve Simple default_build (Some False) (health_probe ''POST'')
              = serve Simple default_build (Some True) (health_probe ''POST''))
   \<and> (\<exists>w. serve Extended default_build (Some False) (health_probe ''POST'') = Inr (w, [])
          \<and> status w = 405
          \<and> serve Extended default_build (Some True) (health_probe ''POST'')
              = serve Extended default_build (Some False) (health_probe ''POST''))"
proof -
  have h: "wire_path (health_probe ''POST'') = ''/healthz''"
    "wire_method (health_probe ''POST'') \<noteq> ''GET''"
    by (simp_all add: health_probe_def)
  from h health_other_method [OF h, where v = Simple and b = default_build
      and flag = "Some True" and flag' = "Some False"]
    health_other_method [OF h, where v = Extended and b = default_build
      and flag = "Some False" and flag' = "Some True"]
  show ?thesis by blast
qed


subsection \<open>The diagnostic route\<close>

lemma Write_Document:
  "Write (Document d) w =
     (if wroteHeader w
      then (if \<not> bodyAllowedForStatus (status w) then (Some ErrBodyNotAllowed, w)
            else if reqMethod w = ''HEAD'' then (None, w)
            else (None, w\<lparr>body := body w @ [Document d]\<rparr>))
      else (if reqMethod w = ''HEAD''
            then (None, w\<lparr>wroteHeader := True, status := 200, sentHeader := handlerHeader w\<rparr>)
            else (None, w\<lparr>wroteHeader := True, status := 200, sentHeader := handlerHeader w,
                           body := body w @ [Document d]\<rparr>)))"
  by (simp add: Write_def WriteHeader_def Let_def bodyAllowedForStatus_def)

lemma bodyAllowed_200: "bodyAllowedForStatus 200"
  by (simp add: bodyAllowedForStatus_def)

text \<open>The whole reply of the diagnostic handler on a fresh writer.\<close>

lemma handleEveryThingElse_new:
  "handleEveryThingElse b req (newResponse req) =
     (let d = marshal_responseBody (responseBodyFor b req);
          h = [(''Content-Type'', [''application/json''])];
          code = (case Atoi (Values_Get (Query (URL req)) ''statusCode'') of
                    Inr n \<Rightarrow> if 100 \<le> n \<and> n < 1000 then n else 200
                  | Inl e \<Rightarrow> 200)
      in (\<lparr> reqMethod = Method req, handlerHeader = h, wroteHeader = True,
            status = code, sentHeader = h,
            body = (if Method req \<noteq> ''HEAD'' \<and> bodyAllowedForStatus code
                    then [Document d] else []) \<rparr>,
          if bodyAllowedForStatus code then []
          else [ErrorWriting (RemoteAddr req) ErrBodyNotAllowed]))"
proof (cases "Atoi (Values_Get (Query (URL req)) ''statusCode'')")
  case (Inl e)
  then show ?thesis
    by (simp add: handleEveryThingElse_def Let_def Write_Document newResponse_def
          Header_Set_resp_def WriteHeader_def bodyAllowed_200)
next
  case (Inr n)
  show ?thesis
  proof (cases "100 \<le> n \<and> n < 1000")
    case True
    with Inr show ?thesis
      by (simp add: handleEveryThingElse_def Let_def Write_Document newResponse_def
            Header_Set_resp_def WriteHeader_def)
  next
    case False
    with Inr show ?thesis
      by (auto simp add: handleEveryThingElse_def Let_def Write_Document newResponse_def
            Header_Set_resp_def WriteHeader_def bodyAllowed_200)
  qed
qed

lemma serve_diagnostic:
  "wire_path r \<noteq> ''/healthz'' \<Longrightarrow>
   serve Extended b flag r =
     Inr (handleEveryThingElse b (readRequest r) (newResponse (readRequest r)))"
  by (simp add: serve_def extended_handler_def readRequest_def Let_def)

lemma readRequest_sel:
  "Method (readRequest r) = wire_method r" "Host (readRequest r) = wire_host r"
  "Query (URL (readRequest r)) = wire_query r" "Form (readRequest r) = None"
  "PostForm (readRequest r) = None" "Header (readRequest r) = Some (wire_header r)"
  "RemoteAddr (readRequest r) = wire_remote r"
  by (simp_all add: readRequest_def)

lemma document_shape:
  "json_fields (marshal_responseBody (responseBodyFor b req)) = [''runtime'', ''request'']"
  "json_field ''runtime'' (marshal_responseBody (responseBodyFor b req))
     = Some (marshal_runtimeBody (Runtime (responseBodyFor b req)))"
  "json_field ''request'' (marshal_responseBody (responseBodyFor b req))
     = Some (marshal_requestBody (Request (responseBodyFor b req)))"
  by (simp_all add: marshal_responseBody_def)

lemma runtime_shape:
  "json_field ''branch'' (marshal_runtimeBody (Runtime (responseBodyFor b req)))
     = Some (JString (branch b))"
  "json_field ''revision'' (marshal_runtimeBody (Runtime (responseBodyFor b req)))
     = Some (JString (revision b))"
  by (simp_all add: marshal_runtimeBody_def responseBodyFor_def)

lemma request_shape:
  "json_field ''method'' (marshal_requestBody (Request (responseBodyFor b req)))
     = Some (JString (Method req))"
  "json_field ''host'' (marshal_requestBody (Request (responseBodyFor b req)))
     = Some (JString (Host req))"
  by (simp_all add: marshal_requestBody_def responseBodyFor_def)

lemma request_fields:
  "json_fields (marshal_requestBody (Request (responseBodyFor b req))) =
     [''proto'', ''host'', ''method'', ''requestURI'']
     @ (case Header req of None \<Rightarrow> [] | Some h \<Rightarrow> if h = [] then [] else [''headers''])
     @ (case Form req of None \<Rightarrow> [] | Some h \<Rightarrow> if h = [] then [] else [''form''])
     @ (case PostForm req of None \<Rightarrow> [] | Some h \<Rightarrow> if h = [] then [] else [''postForm''])"
  by (simp add: marshal_requestBody_def responseBodyFor_def omitempty_def split: option.splits)

lemma atoi_examples:
  "Atoi ''204'' = Inr 204" "Atoi ''abc'' = Inl NumError" "Atoi ''50'' = Inr 50"
  "Atoi ''1000'' = Inr 1000" "Atoi ''404'' = Inr 404" "Atoi [] = Inl NumError"
  by (simp_all add: Atoi_def digit_of_def)

lemma probe_sel:
  "Values_Get (wire_query (diagnostic_probe m c)) ''statusCode'' = c"
  "wire_path (diagnostic_probe m c) = ''/''"
  "wire_method (diagnostic_probe m c) = m"
  "wire_host (diagnostic_probe m c) = ''localhost:8080''"
  by (simp_all add: diagnostic_probe_def Values_Get_def)

text \<open>
  C4: on the diagnostic route of the extended variant the status of the reply is \<open>n\<close>
  when the \<open>statusCode\<close> parameter parses as an integer \<open>n\<close> with \<open>100 \<le> n \<le> 999\<close>, and
  200 when the parameter is absent (read as the empty string), does not parse, or parses
  to a number outside that range.
\<close>

theorem status_override:
  assumes "wire_path r \<noteq> ''/healthz''"
  shows "\<exists>w l. serve Extended b flag r = Inr (w, l) \<and>
     status w = (case Atoi (Values_Get (wire_query r) ''statusCode'') of
                   Inr n \<Rightarrow> if 100 \<le> n \<and> n \<le> 999 then n else 200
                 | Inl e \<Rightarrow> 200)"
  by (auto simp add: serve_diagnostic [OF assms] handleEveryThingElse_new readRequest_sel
        Let_def split: sum.splits)

theorem status_override_witness:
  "wire_path (diagnostic_probe ''GET'' ''204'') \<noteq> ''/healthz''
   \<and> (\<exists>w l. serve Extended default_build (Some True) (diagnostic_probe ''GET'' ''204'')
               = Inr (w, l) \<and> status w = 204)
   \<and> (\<exists>w l. serve Extended default_build (Some True) (diagnostic_probe ''GET'' ''abc'')
               = Inr (w, l) \<and> status w = 200)
   \<and> (\<exists>w l. serve Extended default_build (Some True) (diagnostic_probe ''GET'' ''50'')
               = Inr (w, l) \<and> status w = 200)
   \<and> (\<exists>w l. serve Extended default_build (Some True) (diagnostic_probe ''GET'' ''1000'')
               = Inr (w, l) \<and> status w = 200)"
  using status_override [of "diagnostic_probe ''GET'' ''204''" default_build "Some True"]
    status_override [of "diagnostic_probe ''GET'' ''abc''" default_build "Some True"]
    status_override [of "diagnostic_probe ''GET'' ''50''" default_build "Some True"]
    status_override [of "diagnostic_probe ''GET'' ''1000''" default_build "Some True"]
  by (simp add: probe_sel atoi_examples)

text \<open>
  C5, as the claim states it, fails: with \<open>?statusCode=204\<close> the handler fixes a status
  that allows no body, the write of the document is refused and logged, and the reply
  has an empty body.
\<close>

theorem diagnostic_body_counterexample:
  "serve Extended default_build (Some True) (diagnostic_probe ''GET'' ''204'') =
     Inr (\<lparr> reqMethod = ''GET'', handlerHeader = [(''Content-Type'', [''application/json''])],
            wroteHeader = True, status = 204,
            sentHeader = [(''Content-Type'', [''application/json''])], body = [] \<rparr>,
          [ErrorWriting ''127.0.0.1:40000'' ErrBodyNotAllowed])"
  by (simp add: serve_diagnostic handleEveryThingElse_new readRequest_sel probe_sel
        atoi_examples Let_def bodyAllowedForStatus_def)
     (simp add: diagnostic_probe_def)

text \<open>
  C5, amended: on the diagnostic route of the extended variant the handler always encodes
  one document with exactly the two top-level fields \<open>runtime\<close> and \<open>request\<close>, whose
  \<open>runtime.branch\<close> and \<open>runtime.revision\<close> are the values of the build and whose
  \<open>request.method\<close> and \<open>request.host\<close> are those of the request. That document is the
  body of the reply when the method is not HEAD and the status allows a body (any status
  but 1xx, 204 and 304); otherwise the body is empty.
\<close>

theorem diagnostic_body:
  assumes "wire_path r \<noteq> ''/healthz''"
  shows "\<exists>w l d rt rq. serve Extended b flag r = Inr (w, l) \<and>
     d = marshal_responseBody (responseBodyFor b (readRequest r)) \<and>
     body w = (if wire_method r \<noteq> ''HEAD'' \<and> bodyAllowedForStatus (status w)
               then [Document d] else []) \<and>
     json_fields d = [''runtime'', ''request''] \<and>
     json_field ''runtime'' d = Some rt \<and>
     json_field ''branch'' rt = Some (JString (branch b)) \<and>
     json_field ''revision'' rt = Some (JString (revision b)) \<and>
     json_field ''request'' d = Some rq \<and>
     json_field ''method'' rq = Some (JString (wire_method r)) \<and>
     json_field ''host'' rq = Some (JString (wire_host r))"
  by (simp add: serve_diagnostic [OF assms] handleEveryThingElse_new readRequest_sel Let_def
        document_shape runtime_shape request_shape)

theorem diagnostic_body_witness:
  "wire_path (diagnostic_probe ''POST'' ''404'') \<noteq> ''/healthz''
   \<and> (\<exists>w l d rt rq.
        serve Extended default_build (Some True) (diagnostic_probe ''POST'' ''404'') = Inr (w, l)
        \<and> status w = 404 \<and> body w = [Document d]
        \<and> json_fields d = [''runtime'', ''request'']
        \<and> json_field ''runtime'' d = Some rt
        \<and> json_field ''branch'' rt = Some (JString ''development'')
        \<and> json_field ''revision'' rt = Some (JString ''latest'')
        \<and> json_field ''request'' d = Some rq
        \<and> json_field ''method'' rq = Some (JString ''POST'')
        \<and> json_field ''host'' rq = Some (JString ''localhost:8080''))"
proof -
  have p: "wire_path (diagnostic_probe ''POST'' ''404'') \<noteq> ''/healthz''"
    by (simp add: probe_sel)
  have st: "\<exists>w l. serve Extended default_build (Some True) (diagnostic_probe ''POST'' ''404'')
               = Inr (w, l) \<and> status w = 404"
    by (simp add: serve_diagnostic [OF p] handleEveryThingElse_new readRequest_sel probe_sel
          atoi_examples Let_def)
  from diagnostic_body [OF p, of default_build "Some True"] st p show ?thesis
    by (auto simp add: probe_sel default_build_def bodyAllowedForStatus_def)
qed

text \<open>
  C10: on the diagnostic route of the extended variant the request the handler receives
  has \<open>Form\<close> and \<open>PostForm\<close> \<open>nil\<close>, the handler parses no form, and the document it
  encodes has neither a \<open>form\<close> nor a \<open>postForm\<close> field, whatever query and body the
  request carries; the body of the reply holds nothing but that document.
\<close>

theorem no_form_fields:
  assumes "wire_path r \<noteq> ''/healthz''"
  shows "\<exists>w l d rq. serve Extended b flag r = Inr (w, l) \<and>
     Form (readRequest r) = None \<and> PostForm (readRequest r) = None \<and>
     d = marshal_responseBody (responseBodyFor b (readRequest r)) \<and>
     set (body w) \<subseteq> {Document d} \<and>
     json_fields d = [''runtime'', ''request''] \<and>
     json_field ''request'' d = Some rq \<and>
     ''form'' \<notin> set (json_fields rq) \<and> ''postForm'' \<notin> set (json_fields rq)"
  by (auto simp add: serve_diagnostic [OF assms] handleEveryThingElse_new readRequest_sel
        Let_def document_shape request_fields)

theorem no_form_fields_witness:
  "wire_path (diagnostic_probe ''POST'' ''404'') \<noteq> ''/healthz''
   \<and> wire_query (diagnostic_probe ''POST'' ''404'') \<noteq> []
   \<and> wire_body (diagnostic_probe ''POST'' ''404'') \<noteq> []
   \<and> (\<exists>w l rq.
        serve Extended default_build (Some True) (diagnostic_probe ''POST'' ''404'') = Inr (w, l)
        \<and> set (body w)
            \<subseteq> {Document (marshal_responseBody
                  (responseBodyFor default_build (readRequest (diagnostic_probe ''POST'' ''404''))))}
        \<and> json_field ''request'' (marshal_responseBody
             (responseBodyFor default_build (readRequest (diagnostic_probe ''POST'' ''404''))))
            = Some rq
        \<and> json_fields rq = [''proto'', ''host'', ''method'', ''requestURI''])"
proof -
  have p: "wire_path (diagnostic_probe ''POST'' ''404'') \<noteq> ''/healthz''"
    by (simp add: probe_sel)
  have f: "json_fields (marshal_requestBody (Request (responseBodyFor default_build
             (readRequest (diagnostic_probe ''POST'' ''404''))))) =
           [''proto'', ''host'', ''method'', ''requestURI'']"
    by (simp add: request_fields readRequest_sel) (simp add: diagnostic_probe_def)
  from no_form_fields [OF p, of default_build "Some True"] f p show ?thesis
    by (auto simp add: document_shape) (simp_all add: diagnostic_probe_def)
qed

end
